theory Spec2Isabelle
  imports Complex_Main "HOL-Library.AList"
begin

section \<open>Python values, the object store and errors\<close>

text \<open>
  The class \<^verbatim>\<open>NonParamRegression\<close> of \<^verbatim>\<open>pyqt_fit/nonparam_regression.py\<close> keeps all of
  its state in the instance dictionary and hands numpy arrays, kernels, methods and
  callables around by reference. The embedding follows that: immutable Python values are
  values, every other object lives in a store and is named by its address.
\<close>

datatype pyfloat = NegInf | Finite real | PosInf | NaN

type_synonym addr = nat

datatype pyval =
    PNone
  | PBool bool
  | PInt int
  | PFloat pyfloat
  | PRef addr

text \<open>
  An object of the store is a numpy array (its shape and its items in row-major order) or
  an object of another class (a kernel, a kernel class, a regression method, a function),
  of which the class only asks two things: whether it is callable, and whether it has a
  \<^verbatim>\<open>copy()\<close> method. A list or tuple passed where an array is expected is represented by
  the array that \<^verbatim>\<open>np.asanyarray\<close> makes of it.
\<close>

datatype pyobj =
    Ndarray "nat list" "pyval list"
  | Opaque bool bool

type_synonym heap = "pyobj list"

text \<open>
  The exceptions the module can raise. \<open>ShapeError\<close> and \<open>DimensionMismatch\<close> are the
  names of the specification's error taxonomy; no statement of the source raises them.
  \<open>Unmodelled\<close> is no exception: it marks the one assignment after which the object may
  be an instance of another class, where the embedding stops (see \<open>setattr\<close>).
\<close>

datatype error =
    NameError string
  | AttributeError
  | AssertionError string
  | TypeError
  | ValueError
  | IndexError
  | ShapeError
  | DimensionMismatch
  | Unmodelled

definition and_then :: "error + 'a \<Rightarrow> ('a \<Rightarrow> error + 'b) \<Rightarrow> error + 'b" where
  "and_then r f = (case r of Inl e \<Rightarrow> Inl e | Inr x \<Rightarrow> f x)"

definition lookup :: "heap \<Rightarrow> addr \<Rightarrow> pyobj option" where
  "lookup h a = (if a < length h then Some (h ! a) else None)"

definition alloc :: "heap \<Rightarrow> pyobj \<Rightarrow> addr \<times> heap" where
  "alloc h ob = (length h, h @ [ob])"

fun as_ndarray :: "heap \<Rightarrow> pyval \<Rightarrow> (nat list \<times> pyval list) option" where
  "as_ndarray h (PRef a) =
     (case lookup h a of Some (Ndarray s d) \<Rightarrow> Some (s, d) | _ \<Rightarrow> None)"
| "as_ndarray h _ = None"

text \<open>\<^verbatim>\<open>callable(v)\<close>: arrays, numbers and \<^verbatim>\<open>None\<close> are not callable.\<close>

fun callable :: "heap \<Rightarrow> pyval \<Rightarrow> bool" where
  "callable h (PRef a) =
     (case lookup h a of Some (Opaque c k) \<Rightarrow> c | _ \<Rightarrow> False)"
| "callable h _ = False"

text \<open>\<^verbatim>\<open>v.shape\<close>: only arrays have the attribute.\<close>

definition shape_of :: "heap \<Rightarrow> pyval \<Rightarrow> error + nat list" where
  "shape_of h v = (case as_ndarray h v of Some (s, d) \<Rightarrow> Inr s | None \<Rightarrow> Inl AttributeError)"

subsection \<open>The numpy functions the class calls\<close>

text \<open>
  \<^verbatim>\<open>np.asanyarray(v)\<close> returns an array unchanged and wraps any other value into a new
  0-dimensional array. The result is the reference, the shape, the items and the store.
\<close>

definition asanyarray :: "heap \<Rightarrow> pyval \<Rightarrow> pyval \<times> nat list \<times> pyval list \<times> heap" where
  "asanyarray h v =
     (case as_ndarray h v of
        Some (s, d) \<Rightarrow> (v, s, d, h)
      | None \<Rightarrow> (let (a, h') = alloc h (Ndarray [] [v]) in (PRef a, [], [v], h')))"

text \<open>
  \<^verbatim>\<open>np.atleast_1d\<close>: a 0-dimensional array is reshaped to \<^verbatim>\<open>(1,)\<close>, any other array is
  returned as it is. \<^verbatim>\<open>np.atleast_2d\<close>: a 0-dimensional array is reshaped to \<^verbatim>\<open>(1, 1)\<close>, a
  1-dimensional one of length n becomes the single row \<^verbatim>\<open>(1, n)\<close>, any other array is
  returned as it is. A reshaped array is a new object of the store (numpy makes a view:
  the class never writes an item through one, so the items are copied here).
\<close>

definition atleast_1d :: "heap \<Rightarrow> pyval \<Rightarrow> pyval \<times> heap" where
  "atleast_1d h v =
     (let (r, s, d, h1) = asanyarray h v in
      if length s = 0 then (let (a, h2) = alloc h1 (Ndarray [1] d) in (PRef a, h2))
      else (r, h1))"

definition atleast_2d :: "heap \<Rightarrow> pyval \<Rightarrow> pyval \<times> heap" where
  "atleast_2d h v =
     (let (r, s, d, h1) = asanyarray h v in
      if length s = 0 then (let (a, h2) = alloc h1 (Ndarray [1, 1] d) in (PRef a, h2))
      else if length s = 1 then (let (a, h2) = alloc h1 (Ndarray (1 # s) d) in (PRef a, h2))
      else (r, h1))"

section \<open>The instance and its properties\<close>

text \<open>
  The instance dictionary \<^verbatim>\<open>self.__dict__\<close>, in insertion order: assigning to an existing
  attribute keeps its place, a new attribute goes to the end.
\<close>

type_synonym attrs = "(string \<times> pyval) list"

definition attr :: "attrs \<Rightarrow> string \<Rightarrow> error + pyval" where
  "attr self name = (case map_of self name of Some v \<Rightarrow> Inr v | None \<Rightarrow> Inl AttributeError)"

definition set_kernel :: "attrs \<Rightarrow> pyval \<Rightarrow> attrs" where
  "set_kernel self k =
     AList.update ''_kernel'' k (AList.update ''_kernel_class'' PNone self)"

definition set_kernel_class :: "attrs \<Rightarrow> pyval \<Rightarrow> attrs" where
  "set_kernel_class self k =
     AList.update ''_kernel_class'' k (AList.update ''_kernel'' PNone self)"

definition set_bandwidth :: "heap \<Rightarrow> attrs \<Rightarrow> pyval \<Rightarrow> attrs" where
  "set_bandwidth h self bw =
     (let self1 = AList.update ''_bw_fct'' PNone self;
          self2 = AList.update ''_cov_fct'' PNone self1
      in if callable h bw then AList.update ''_bw_fct'' bw self2
         else AList.update ''_covariance'' PNone (AList.update ''_bandwidth'' bw self2))"

definition set_covariance :: "heap \<Rightarrow> attrs \<Rightarrow> pyval \<Rightarrow> attrs" where
  "set_covariance h self cov =
     (let self1 = AList.update ''_bw_fct'' PNone self;
          self2 = AList.update ''_cov_fct'' PNone self1
      in if callable h cov then AList.update ''_cov_fct'' cov self2
         else AList.update ''_bandwidth'' PNone (AList.update ''_covariance'' cov self2))"

text \<open>
  The setters of \<^verbatim>\<open>lower\<close>, \<^verbatim>\<open>upper\<close>, \<^verbatim>\<open>xdata\<close> and \<^verbatim>\<open>ydata\<close> coerce with
  \<^verbatim>\<open>np.atleast_1d\<close> or \<^verbatim>\<open>np.atleast_2d\<close> and then assert the rank.
\<close>

definition set_lower :: "heap \<Rightarrow> attrs \<Rightarrow> pyval \<Rightarrow> error + attrs \<times> heap" where
  "set_lower h self l =
     (let (l', h') = atleast_1d h l in
      and_then (shape_of h' l') (\<lambda>s.
        if length s = 1 then Inr (AList.update ''_lower'' l' self, h')
        else Inl (AssertionError ''The lower bound must be at most a 1D array'')))"

definition del_lower :: "attrs \<Rightarrow> attrs" where
  "del_lower self = AList.update ''_lower'' PNone self"

definition set_upper :: "heap \<Rightarrow> attrs \<Rightarrow> pyval \<Rightarrow> error + attrs \<times> heap" where
  "set_upper h self l =
     (let (l', h') = atleast_1d h l in
      and_then (shape_of h' l') (\<lambda>s.
        if length s = 1 then Inr (AList.update ''_upper'' l' self, h')
        else Inl (AssertionError ''The upper bound must be at most a 1D array'')))"

definition del_upper :: "attrs \<Rightarrow> attrs" where
  "del_upper self = AList.update ''_upper'' PNone self"

definition set_xdata :: "heap \<Rightarrow> attrs \<Rightarrow> pyval \<Rightarrow> error + attrs \<times> heap" where
  "set_xdata h self xd =
     (let (xd', h') = atleast_2d h xd in
      and_then (shape_of h' xd') (\<lambda>s.
        if length s = 2 then Inr (AList.update ''_xdata'' xd' self, h')
        else Inl (AssertionError ''The xdata must be at most a 2D array'')))"

definition set_ydata :: "heap \<Rightarrow> attrs \<Rightarrow> pyval \<Rightarrow> error + attrs \<times> heap" where
  "set_ydata h self yd =
     (let (yd', h') = atleast_1d h yd in
      and_then (shape_of h' yd') (\<lambda>s.
        if length s = 1 then Inr (AList.update ''_ydata'' yd' self, h')
        else Inl (AssertionError ''The ydata must be at most a 1D array'')))"

definition set_method :: "attrs \<Rightarrow> pyval \<Rightarrow> attrs" where
  "set_method self m = AList.update ''_method'' m self"

text \<open>The getters return the private attribute.\<close>

definition get_lower :: "attrs \<Rightarrow> error + pyval" where
  "get_lower self = attr self ''_lower''"

definition get_upper :: "attrs \<Rightarrow> error + pyval" where
  "get_upper self = attr self ''_upper''"

definition get_N :: "attrs \<Rightarrow> error + pyval" where
  "get_N self = attr self ''_n''"

definition get_dim :: "attrs \<Rightarrow> error + pyval" where
  "get_dim self = attr self ''_d''"

subsection \<open>Attribute assignment by name\<close>

text \<open>
  \<^verbatim>\<open>setattr(self, name, v)\<close> on an instance of the class: a name that is a property with a
  setter runs the setter; \<^verbatim>\<open>N\<close> and \<^verbatim>\<open>dim\<close> are properties without a setter, so the
  assignment raises \<^verbatim>\<open>AttributeError\<close>; \<^verbatim>\<open>__dict__\<close> only accepts a dictionary, which no
  value of \<^typ>\<open>pyval\<close> is, and \<^verbatim>\<open>__weakref__\<close> is not writable; any other name, a method name
  or a private name included, is stored in the instance dictionary. \<^verbatim>\<open>__class__\<close> only
  accepts a class: a value that is not callable is no class and raises \<^verbatim>\<open>TypeError\<close>; a
  callable object may be a function, which raises \<^verbatim>\<open>TypeError\<close> too, or a class such as a
  kernel class, which Python accepts when its instances have the same layout, and the
  object is then no instance of \<^verbatim>\<open>NonParamRegression\<close> any more. The store does not tell
  the two apart, and the embedding does not follow the object into another class: the
  outcome is \<open>Unmodelled\<close>.
\<close>

definition setattr :: "heap \<Rightarrow> attrs \<Rightarrow> string \<Rightarrow> pyval \<Rightarrow> error + attrs \<times> heap" where
  "setattr h self name v =
     (if name = ''kernel'' then Inr (set_kernel self v, h)
      else if name = ''kernel_class'' then Inr (set_kernel_class self v, h)
      else if name = ''bandwidth'' then Inr (set_bandwidth h self v, h)
      else if name = ''covariance'' then Inr (set_covariance h self v, h)
      else if name = ''lower'' then set_lower h self v
      else if name = ''upper'' then set_upper h self v
      else if name = ''xdata'' then set_xdata h self v
      else if name = ''ydata'' then set_ydata h self v
      else if name = ''method'' then Inr (set_method self v, h)
      else if name = ''N'' \<or> name = ''dim'' then Inl AttributeError
      else if name = ''__class__'' then (if callable h v then Inl Unmodelled else Inl TypeError)
      else if name = ''__dict__'' then Inl TypeError
      else if name = ''__weakref__'' then Inl AttributeError
      else Inr (AList.update name v self, h))"

subsection \<open>Construction\<close>

text \<open>
  What the module takes from its collaborators \<^verbatim>\<open>kernels\<close> and \<^verbatim>\<open>npr_methods\<close>, which are
  not part of the source at hand: the two default objects, and what the \<^verbatim>\<open>fit\<close> and
  \<^verbatim>\<open>evaluate\<close> methods of a method object do to the instance and the store (an error for
  a value that has no such method).
\<close>

record externals =
  normal_kernel :: pyval
  default_method :: pyval
  method_fit :: "pyval \<Rightarrow> attrs \<Rightarrow> heap \<Rightarrow> error + attrs \<times> heap"
  method_evaluate :: "pyval \<Rightarrow> attrs \<Rightarrow> pyval \<Rightarrow> pyval \<Rightarrow> heap \<Rightarrow> error + heap"

text \<open>
  The loop \<^verbatim>\<open>for kw in kwords: setattr(self, kw, kwords[kw])\<close>; the keyword dictionary is
  the list of its items.
\<close>

fun apply_kwords ::
  "heap \<Rightarrow> attrs \<Rightarrow> (string \<times> pyval) list \<Rightarrow> error + attrs \<times> heap" where
  "apply_kwords h self [] = Inr (self, h)"
| "apply_kwords h self ((kw, v) # rest) =
     and_then (setattr h self kw v) (\<lambda>(self', h'). apply_kwords h' self' rest)"

text \<open>
  The call \<^verbatim>\<open>NonParamRegression(xdata, ydata, **kwords)\<close> binds the new object to \<^verbatim>\<open>self\<close>
  and the two positional arguments to \<^verbatim>\<open>xdata\<close> and \<^verbatim>\<open>ydata\<close>. A keyword with the name of
  one of these three parameters is a second value for it: the call raises \<^verbatim>\<open>TypeError\<close>
  and the body of \<^verbatim>\<open>__init__\<close> does not run. Every other keyword goes to \<^verbatim>\<open>kwords\<close>.
\<close>

definition parameter_names :: "string list" where
  "parameter_names = [''self'', ''xdata'', ''ydata'']"

definition init ::
  "externals \<Rightarrow> heap \<Rightarrow> pyval \<Rightarrow> pyval \<Rightarrow> (string \<times> pyval) list \<Rightarrow> error + attrs \<times> heap" where
  "init E h xdata ydata kwords =
     (if list_ex (\<lambda>kw. kw \<in> set parameter_names) (map fst kwords) then Inl TypeError
      else
      let (xd, h1) = atleast_2d h xdata;
          (yd, h2) = atleast_1d h1 ydata;
          self0 = [(''_xdata'', xd), (''_ydata'', yd), (''_kernel_class'', PNone),
                   (''_covariance'', PNone), (''_cov_fct'', PNone), (''_bandwidth'', PNone),
                   (''_bw_fct'', PNone), (''_method'', PNone), (''_fitted'', PBool False),
                   (''_kernel'', PNone), (''_lower'', PNone), (''_upper'', PNone),
                   (''_n'', PNone), (''_d'', PNone)]
      in and_then (apply_kwords h2 self0 kwords) (\<lambda>(self1, h3).
         and_then (attr self1 ''_kernel'') (\<lambda>k.
           let self2 = (if k = PNone then set_kernel_class self1 (normal_kernel E) else self1)
           in and_then (attr self2 ''_method'') (\<lambda>m.
             let self3 = (if m = PNone then AList.update ''_method'' (default_method E) self2
                          else self2)
             in Inr (self3, h3)))))"

subsection \<open>Copying\<close>

text \<open>The test \<^verbatim>\<open>len(m) > 1 and m[0] == '_' and m[1] != '_'\<close> of \<^verbatim>\<open>copy\<close>.\<close>

definition is_private :: "string \<Rightarrow> bool" where
  "is_private m = (length m > 1 \<and> m ! 0 = CHR ''_'' \<and> m ! 1 \<noteq> CHR ''_'')"

text \<open>
  \<^verbatim>\<open>obj.copy()\<close>: an array has the method and returns a new array with the same shape and
  items; an object of another class has it or not, and when it has, it is taken to return
  a new object of the same kind; \<^verbatim>\<open>None\<close>, booleans and Python numbers have no such
  attribute.
\<close>

definition obj_copy :: "heap \<Rightarrow> pyval \<Rightarrow> error + pyval \<times> heap" where
  "obj_copy h obj =
     (case obj of
        PRef a \<Rightarrow>
          (case lookup h a of
             Some (Ndarray s d) \<Rightarrow> (let (a', h') = alloc h (Ndarray s d) in Inr (PRef a', h'))
           | Some (Opaque c k) \<Rightarrow>
               (if k then (let (a', h') = alloc h (Opaque c k) in Inr (PRef a', h'))
                else Inl AttributeError)
           | None \<Rightarrow> Inl AttributeError)
      | _ \<Rightarrow> Inl AttributeError)"

text \<open>
  The loop of \<^verbatim>\<open>copy\<close> over the names of \<^verbatim>\<open>self.__dict__\<close>, with the \<^verbatim>\<open>try\<close> statement:
  an \<^verbatim>\<open>AttributeError\<close> from \<^verbatim>\<open>obj.copy()\<close> or from the assignment is caught and the object
  itself is assigned; any other error propagates.
\<close>

fun copy_members :: "heap \<Rightarrow> attrs \<Rightarrow> string list \<Rightarrow> attrs \<Rightarrow> error + attrs \<times> heap" where
  "copy_members h self [] res = Inr (res, h)"
| "copy_members h self (m # ms) res =
     (if is_private m then
        and_then (attr self m) (\<lambda>obj.
          and_then
            (case and_then (obj_copy h obj) (\<lambda>(c, h'). setattr h' res m c) of
               Inl AttributeError \<Rightarrow> setattr h res m obj
             | r \<Rightarrow> r)
            (\<lambda>(res', h'). copy_members h' self ms res'))
      else copy_members h self ms res)"

definition copy :: "heap \<Rightarrow> attrs \<Rightarrow> error + attrs \<times> heap" where
  "copy h self = copy_members h self (map fst self) []"

subsection \<open>Fitting\<close>

text \<open>
  \<^verbatim>\<open>fit\<close> and \<^verbatim>\<open>evaluate\<close> read the names \<^verbatim>\<open>D\<close>, \<^verbatim>\<open>N\<close> and \<^verbatim>\<open>y\<close>, which neither function
  assigns: Python looks them up in the module's global namespace when the statement runs,
  and raises \<^verbatim>\<open>NameError\<close> for a name that is not bound. The names the module binds are
  its imports and the class; \<open>D\<close>, \<open>N\<close> and \<open>y\<close> are not among them and are no builtins.
  A \<open>namespace\<close> holds the bindings that code outside the module has added to the module's
  globals; in the module as it is written there are none.
\<close>

type_synonym namespace = "string \<rightharpoonup> pyval"

definition module_globals :: "string list" where
  "module_globals =
     [''division'', ''absolute_import'', ''print_function'', ''stats'', ''sqrtm'', ''solve'',
      ''scipy'', ''np'', ''irange'', ''npr_methods'', ''kernels'', ''numpy_method_idx'',
      ''NonParamRegression'']"

definition unpatched :: namespace where
  "unpatched = Map.empty"

definition load_global :: "namespace \<Rightarrow> string \<Rightarrow> error + pyval" where
  "load_global G name = (case G name of Some v \<Rightarrow> Inr v | None \<Rightarrow> Inl (NameError name))"

text \<open>
  \<^verbatim>\<open>n == N\<close> for an integer \<open>n\<close> and the value bound to \<^verbatim>\<open>N\<close> (an array bound to \<^verbatim>\<open>N\<close> would
  compare item by item, which is not modelled: it counts as unequal).
\<close>

fun int_eq :: "nat \<Rightarrow> pyval \<Rightarrow> bool" where
  "int_eq n (PInt i) = (int n = i)"
| "int_eq n (PBool b) = (n = (if b then 1 else 0))"
| "int_eq n (PFloat (Finite r)) = (real n = r)"
| "int_eq n _ = False"

text \<open>The length \<^verbatim>\<open>N\<close> in \<^verbatim>\<open>np.ones((N,), dtype=float)\<close> has to be a non-negative integer.\<close>

fun as_count :: "pyval \<Rightarrow> error + nat" where
  "as_count (PInt i) = (if i < 0 then Inl ValueError else Inr (nat i))"
| "as_count (PBool b) = Inr (if b then 1 else 0)"
| "as_count _ = Inl TypeError"

text \<open>
  \<^verbatim>\<open>-np.inf * np.ones((N,), dtype=float)\<close> and \<^verbatim>\<open>np.inf * np.ones((N,), dtype=float)\<close>: a new
  array of \<open>N\<close> items, each the infinity times one.
\<close>

definition inf_ones :: "pyfloat \<Rightarrow> pyval \<Rightarrow> heap \<Rightarrow> error + pyval \<times> heap" where
  "inf_ones f N h =
     and_then (as_count N) (\<lambda>n.
       let (a, h') = alloc h (Ndarray [n] (replicate n (PFloat f))) in Inr (PRef a, h'))"

text \<open>
  Line 221 is the expression statement \<^verbatim>\<open>D, N == self._xdata.shape\<close>: it evaluates \<^verbatim>\<open>D\<close>,
  then \<^verbatim>\<open>N\<close>, then the shape, builds a pair and drops it. It binds nothing, so the later
  lines read the same two globals again.
\<close>

definition fit :: "namespace \<Rightarrow> externals \<Rightarrow> heap \<Rightarrow> attrs \<Rightarrow> error + attrs \<times> heap" where
  "fit G E h self =
     and_then (load_global G ''D'') (\<lambda>D.
     and_then (load_global G ''N'') (\<lambda>N.
     and_then (attr self ''_xdata'') (\<lambda>xd.
     and_then (shape_of h xd) (\<lambda>xshape.
     and_then (attr self ''_ydata'') (\<lambda>yd.
     and_then (shape_of h yd) (\<lambda>yshape.
     and_then (case yshape of [] \<Rightarrow> Inl IndexError | y0 # _ \<Rightarrow> Inr y0) (\<lambda>y0.
     if \<not> int_eq y0 N then Inl (AssertionError ''There must be as many points for X and Y'')
     else
     and_then (attr self ''_lower'') (\<lambda>lo.
     and_then (if lo = PNone
               then and_then (inf_ones NegInf N h)
                      (\<lambda>(b, h'). Inr (AList.update ''_lower'' b self, h'))
               else Inr (self, h)) (\<lambda>(self1, h1).
     and_then (attr self1 ''_upper'') (\<lambda>up.
     and_then (if up = PNone
               then and_then (inf_ones PosInf N h1)
                      (\<lambda>(b, h'). Inr (AList.update ''_upper'' b self1, h'))
               else Inr (self1, h1)) (\<lambda>(self2, h2).
     let self3 = AList.update ''_n'' N self2;
         self4 = AList.update ''_d'' D self3
     in and_then (attr self4 ''_method'') (\<lambda>m.
        and_then (method_fit E m self4 h2) (\<lambda>(self5, h3).
        Inr (AList.update ''_fitted'' (PBool True) self5, h3))))))))))))))"

subsection \<open>Evaluation\<close>

text \<open>
  Assigning to \<^verbatim>\<open>out.shape\<close> reshapes the array in place and needs the new shape to hold
  as many items as the old one (\<^verbatim>\<open>ValueError\<close> otherwise); a value that is no array is
  taken to have no such attribute.
\<close>

definition set_shape :: "heap \<Rightarrow> pyval \<Rightarrow> nat list \<Rightarrow> error + heap" where
  "set_shape h v s =
     (case v of
        PRef a \<Rightarrow>
          (case lookup h a of
             Some (Ndarray s0 d) \<Rightarrow>
               (if prod_list s = prod_list s0 then Inr (h[a := Ndarray s d]) else Inl ValueError)
           | _ \<Rightarrow> Inl AttributeError)
      | _ \<Rightarrow> Inl AttributeError)"

text \<open>
  \<^verbatim>\<open>np.empty((M,), dtype=type(y.dtype.type() + 0.))\<close> reads the global \<^verbatim>\<open>y\<close> and its
  \<^verbatim>\<open>dtype\<close>, which arrays have; the new array has \<open>M\<close> items that are not initialised (here
  \<open>NaN\<close>). Element types are not part of the model.
\<close>

definition empty_like_y :: "namespace \<Rightarrow> heap \<Rightarrow> nat \<Rightarrow> error + pyval \<times> heap" where
  "empty_like_y G h M =
     and_then (load_global G ''y'') (\<lambda>y.
     and_then (shape_of h y) (\<lambda>_.
       let (a, h') = alloc h (Ndarray [M] (replicate M (PFloat NaN))) in Inr (PRef a, h')))"

definition evaluate ::
  "namespace \<Rightarrow> externals \<Rightarrow> heap \<Rightarrow> attrs \<Rightarrow> pyval \<Rightarrow> pyval \<Rightarrow> error + pyval \<times> heap" where
  "evaluate G E h self points out =
     (let (p, real_shape, d, h1) = asanyarray h points in
      if \<not> length real_shape < 3
      then Inl (AssertionError ''The input points can be at most a 2D array'')
      else
       let (p2, pshape, h2) =
             (if length real_shape = 0
              then (let (a, h') = alloc h1 (Ndarray [1, 1] d) in (PRef a, [1, 1], h'))
              else if length real_shape = 1
              then (let (a, h') = alloc h1 (Ndarray [1, real_shape ! 0] d)
                    in (PRef a, [1, real_shape ! 0], h'))
              else (p, real_shape, h1));
           M = last pshape
       in and_then (if out = PNone then empty_like_y G h2 M
                    else and_then (set_shape h2 out [M]) (\<lambda>h'. Inr (out, h'))) (\<lambda>(out', h3).
          and_then (attr self ''_method'') (\<lambda>m.
          and_then (method_evaluate E m self p2 out' h3) (\<lambda>h4.
          and_then (set_shape h4 out' (if real_shape = [] then [] else [last real_shape])) (\<lambda>h5.
          Inr (out', h5))))))"

definition call ::
  "namespace \<Rightarrow> externals \<Rightarrow> heap \<Rightarrow> attrs \<Rightarrow> pyval \<Rightarrow> pyval \<Rightarrow> error + pyval \<times> heap" where
  "call G E h self points out = evaluate G E h self points out"

section \<open>Notions used to state the properties\<close>

text \<open>
  A value is valid in a store when it refers to an object of that store; Python has no
  other references. \<open>value_shape\<close> is the shape of \<^verbatim>\<open>np.asanyarray(v)\<close>: the shape of an
  array, and the empty shape of anything else.
\<close>

definition valid :: "heap \<Rightarrow> pyval \<Rightarrow> bool" where
  "valid h v = (case v of PRef a \<Rightarrow> a < length h | _ \<Rightarrow> True)"

definition value_shape :: "heap \<Rightarrow> pyval \<Rightarrow> nat list" where
  "value_shape h v = (case as_ndarray h v of Some (s, d) \<Rightarrow> s | None \<Rightarrow> [])"

text \<open>The shape of a returned array, and of an attribute of a returned instance.\<close>

definition result_shape :: "error + pyval \<times> heap \<Rightarrow> error + nat list" where
  "result_shape r = and_then r (\<lambda>(v, h). shape_of h v)"

definition attr_shape :: "string \<Rightarrow> error + attrs \<times> heap \<Rightarrow> error + nat list" where
  "attr_shape name r = and_then r (\<lambda>(self, h). and_then (attr self name) (shape_of h))"

text \<open>
  The instance dictionary at the end of \<^verbatim>\<open>__init__\<close> when no keyword is given, as a
  function of the four attributes that are not constants.
\<close>

definition initial_attrs :: "pyval \<Rightarrow> pyval \<Rightarrow> pyval \<Rightarrow> pyval \<Rightarrow> attrs" where
  "initial_attrs xd yd k m =
     [(''_xdata'', xd), (''_ydata'', yd), (''_kernel_class'', k),
      (''_covariance'', PNone), (''_cov_fct'', PNone), (''_bandwidth'', PNone),
      (''_bw_fct'', PNone), (''_method'', m), (''_fitted'', PBool False),
      (''_kernel'', PNone), (''_lower'', PNone), (''_upper'', PNone),
      (''_n'', PNone), (''_d'', PNone)]"


text \<open>
  Whether \<^verbatim>\<open>obj.copy()\<close> exists, and whether \<open>c\<close> is a clone of \<open>obj\<close>: an object that the
  store \<open>h\<close> did not hold and that has, in \<open>h'\<close>, the contents \<open>obj\<close> has in \<open>h\<close>.
\<close>

definition has_copy :: "heap \<Rightarrow> pyval \<Rightarrow> bool" where
  "has_copy h obj =
     (case obj of
        PRef a \<Rightarrow>
          (case lookup h a of
             Some (Ndarray s d) \<Rightarrow> True
           | Some (Opaque c k) \<Rightarrow> k
           | None \<Rightarrow> False)
      | _ \<Rightarrow> False)"

definition is_clone_of :: "heap \<Rightarrow> heap \<Rightarrow> pyval \<Rightarrow> pyval \<Rightarrow> bool" where
  "is_clone_of h h' obj c =
     (case (obj, c) of
        (PRef a, PRef a') \<Rightarrow> length h \<le> a' \<and> lookup h a \<noteq> None \<and> lookup h' a' = lookup h a
      | _ \<Rightarrow> False)"

text \<open>
  A name that starts with a single underscore, read from the words alone: its first
  character is an underscore and no second underscore follows it.
\<close>

definition starts_with_single_underscore :: "string \<Rightarrow> bool" where
  "starts_with_single_underscore m =
     (case m of
        [] \<Rightarrow> False
      | c # rest \<Rightarrow> c = CHR ''_'' \<and> (case rest of [] \<Rightarrow> True | c2 # _ \<Rightarrow> c2 \<noteq> CHR ''_''))"

subsection \<open>Sequences of kernel assignments\<close>

datatype kernel_assignment = AssignKernel pyval | AssignKernelClass pyval

fun assign_kernel :: "attrs \<Rightarrow> kernel_assignment \<Rightarrow> attrs" where
  "assign_kernel self (AssignKernel k) = set_kernel self k"
| "assign_kernel self (AssignKernelClass k) = set_kernel_class self k"

definition kernel_exclusive :: "attrs \<Rightarrow> bool" where
  "kernel_exclusive self =
     (map_of self ''_kernel'' = Some PNone \<or> map_of self ''_kernel_class'' = Some PNone)"

subsection \<open>A concrete model\<close>

text \<open>
  A store with a kernel class (address 0, callable, without \<^verbatim>\<open>copy\<close>), a method object
  (address 1), a matrix of three points in dimension 1 (address 2), response vectors of
  length 3 and 2 (addresses 3 and 4), an array of rank 3 (address 5) and three output
  buffers (addresses 6 to 8). The method of the example leaves the instance and the
  output buffer as they are.
\<close>

definition example_externals :: externals where
  "example_externals =
     \<lparr>normal_kernel = PRef 0, default_method = PRef 1,
      method_fit = (\<lambda>m self h. Inr (self, h)),
      method_evaluate = (\<lambda>m self p out h. Inr h)\<rparr>"

definition example_heap :: heap where
  "example_heap =
     [Opaque True False, Opaque False False,
      Ndarray [1, 3] [PInt 1, PInt 2, PInt 3],
      Ndarray [3] [PInt 2, PInt 4, PInt 6],
      Ndarray [2] [PInt 2, PInt 4],
      Ndarray [2, 2, 2] [PInt 1, PInt 2, PInt 3, PInt 4, PInt 5, PInt 6, PInt 7, PInt 8],
      Ndarray [1] [PFloat (Finite 0)],
      Ndarray [2, 1] [PFloat (Finite 0), PFloat (Finite 0)],
      Ndarray [3] [PFloat (Finite 0), PFloat (Finite 0), PFloat (Finite 0)]]"

definition example_model :: attrs where
  "example_model = initial_attrs (PRef 2) (PRef 3) (PRef 0) (PRef 1)"

definition mismatched_model :: attrs where
  "mismatched_model = initial_attrs (PRef 2) (PRef 4) (PRef 0) (PRef 1)"

definition copied_example :: attrs where
  "copied_example =
     [(''_xdata'', PRef 2), (''_'', PInt 1), (''_kernel'', PRef 0), (''__tag'', PInt 7),
      (''foo'', PInt 2)]"

section \<open>Properties\<close>

subsection \<open>The store and the coercions\<close>

lemma lookup_append: "a < length h \<Longrightarrow> lookup (h @ hs) a = lookup h a"
  by (simp add: lookup_def nth_append)

lemma lookup_new: "lookup (h @ ob # hs) (length h) = Some ob"
  by (simp add: lookup_def)

lemma valid_append: "valid h v \<Longrightarrow> valid (h @ ext) v"
  by (cases v) (simp_all add: valid_def)


lemma atleast_1d_cases:
  "atleast_1d h l =
     (case as_ndarray h l of
        Some (s, d) \<Rightarrow> if s = [] then (PRef (length h), h @ [Ndarray [1] d]) else (l, h)
      | None \<Rightarrow> (PRef (Suc (length h)), h @ [Ndarray [] [l], Ndarray [1] [l]]))"
  by (simp add: atleast_1d_def asanyarray_def alloc_def split: option.splits)






lemmas example_defs = example_externals_def example_heap_def example_model_def
  initial_attrs_def

lemmas run_defs = init_def fit_def evaluate_def atleast_1d_def atleast_2d_def asanyarray_def
  alloc_def lookup_def and_then_def attr_def shape_of_def load_global_def unpatched_def
  set_kernel_class_def inf_ones_def set_shape_def empty_like_y_def result_shape_def
  attr_shape_def parameter_names_def

subsection \<open>The setters\<close>

lemma set_lower_cases:
  "set_lower h self l =
     (case as_ndarray h l of
        Some (s, d) \<Rightarrow>
          if s = [] then Inr (AList.update ''_lower'' (PRef (length h)) self, h @ [Ndarray [1] d])
          else if length s = 1 then Inr (AList.update ''_lower'' l self, h)
          else Inl (AssertionError ''The lower bound must be at most a 1D array'')
      | None \<Rightarrow> Inr (AList.update ''_lower'' (PRef (Suc (length h))) self,
                     h @ [Ndarray [] [l], Ndarray [1] [l]]))"
  by (simp add: set_lower_def atleast_1d_cases shape_of_def and_then_def lookup_def nth_append
      split: option.splits)

lemma set_upper_cases:
  "set_upper h self l =
     (case as_ndarray h l of
        Some (s, d) \<Rightarrow>
          if s = [] then Inr (AList.update ''_upper'' (PRef (length h)) self, h @ [Ndarray [1] d])
          else if length s = 1 then Inr (AList.update ''_upper'' l self, h)
          else Inl (AssertionError ''The upper bound must be at most a 1D array'')
      | None \<Rightarrow> Inr (AList.update ''_upper'' (PRef (Suc (length h))) self,
                     h @ [Ndarray [] [l], Ndarray [1] [l]]))"
  by (simp add: set_upper_def atleast_1d_cases shape_of_def and_then_def lookup_def nth_append
      split: option.splits)







lemma init_no_keywords:
  "init E h x y [] =
     (let (xd, h1) = atleast_2d h x; (yd, h2) = atleast_1d h1 y
      in Inr (initial_attrs xd yd (normal_kernel E) (default_method E), h2))"
  by (simp add: init_def and_then_def attr_def Let_def set_kernel_class_def initial_attrs_def
      split: prod.splits)

lemma kernel_exclusive_assign: "kernel_exclusive (assign_kernel self a)"
  by (cases a) (simp_all add: kernel_exclusive_def set_kernel_def set_kernel_class_def update_conv')

lemma kernel_exclusive_foldl:
  "kernel_exclusive self \<Longrightarrow> kernel_exclusive (foldl assign_kernel self ops)"
  by (induction ops arbitrary: self) (simp_all add: kernel_exclusive_assign)

lemma kernel_exclusive_initial: "kernel_exclusive (initial_attrs xd yd k m)"
  by (simp add: kernel_exclusive_def initial_attrs_def)

text \<open>
  C9. Assigning a kernel instance stores it and clears the kernel class, and assigning a
  kernel class stores it and clears the kernel instance, whatever the instance held
  before. So at most one of \<^verbatim>\<open>_kernel\<close> and \<^verbatim>\<open>_kernel_class\<close> is set (not \<^verbatim>\<open>None\<close>) after
  any sequence of such assignments that is not empty, after any sequence at all from a
  state in which one of the two is \<^verbatim>\<open>None\<close>, and so after any sequence on a model that
  was constructed without keywords.
\<close>

theorem kernel_and_kernel_class_exclusive:
  "map_of (set_kernel self k) ''_kernel'' = Some k
   \<and> map_of (set_kernel self k) ''_kernel_class'' = Some PNone
   \<and> map_of (set_kernel_class self k) ''_kernel_class'' = Some k
   \<and> map_of (set_kernel_class self k) ''_kernel'' = Some PNone
   \<and> (ops \<noteq> [] \<or> kernel_exclusive self \<longrightarrow> kernel_exclusive (foldl assign_kernel self ops))
   \<and> (init E h x y [] = Inr (self0, h0) \<longrightarrow> kernel_exclusive (foldl assign_kernel self0 ops))"
proof -
  have A: "kernel_exclusive (foldl assign_kernel self ops)" if "ops \<noteq> []"
  proof (cases ops)
    case Nil
    with that show ?thesis by simp
  next
    case (Cons a rest)
    then show ?thesis
      by (simp add: kernel_exclusive_foldl kernel_exclusive_assign)
  qed
  have B: "kernel_exclusive (foldl assign_kernel self0 ops)"
    if "init E h x y [] = Inr (self0, h0)"
  proof -
    from that have "kernel_exclusive self0"
      by (auto simp: init_no_keywords Let_def kernel_exclusive_initial split: prod.splits)
    then show ?thesis by (rule kernel_exclusive_foldl)
  qed
  have C: "map_of (set_kernel self k) ''_kernel'' = Some k
     \<and> map_of (set_kernel self k) ''_kernel_class'' = Some PNone
     \<and> map_of (set_kernel_class self k) ''_kernel_class'' = Some k
     \<and> map_of (set_kernel_class self k) ''_kernel'' = Some PNone"
    by (simp add: set_kernel_def set_kernel_class_def update_conv')
  from A B C kernel_exclusive_foldl show ?thesis by blast
qed

theorem kernel_and_kernel_class_exclusive_witness:
  "[AssignKernel (PRef 0), AssignKernelClass (PRef 1)] \<noteq> []
   \<and> kernel_exclusive
       (foldl assign_kernel [(''_kernel'', PRef 2), (''_kernel_class'', PRef 3)]
          [AssignKernel (PRef 0), AssignKernelClass (PRef 1)])
   \<and> map_of (foldl assign_kernel [(''_kernel'', PRef 2), (''_kernel_class'', PRef 3)]
          [AssignKernel (PRef 0), AssignKernelClass (PRef 1)]) ''_kernel_class'' = Some (PRef 1)
   \<and> init example_externals example_heap (PRef 2) (PRef 3) [] = Inr (example_model, example_heap)
   \<and> kernel_exclusive
       (foldl assign_kernel example_model [AssignKernel (PRef 0), AssignKernelClass (PRef 1)])"
  using kernel_and_kernel_class_exclusive
    [of "[(''_kernel'', PRef 2), (''_kernel_class'', PRef 3)]" "PRef 0"
        "[AssignKernel (PRef 0), AssignKernelClass (PRef 1)]"
        example_externals example_heap "PRef 2" "PRef 3" example_model example_heap]
  by (simp add: set_kernel_def set_kernel_class_def run_defs example_defs)

text \<open>
  C2 (as amended). Assigning \<^verbatim>\<open>bandwidth = v\<close> always clears the covariance callable and
  any earlier bandwidth callable. When \<open>v\<close> is not callable it becomes the bandwidth value
  and the covariance value is cleared; when \<open>v\<close> is callable it becomes the bandwidth
  callable and the two fixed values stay as they were. Assigning \<^verbatim>\<open>covariance = v\<close> does
  the same with the roles exchanged.
\<close>

theorem bandwidth_covariance_setters:
  "map_of (set_bandwidth h self v) ''_cov_fct'' = Some PNone
   \<and> map_of (set_bandwidth h self v) ''_bw_fct'' = Some (if callable h v then v else PNone)
   \<and> map_of (set_bandwidth h self v) ''_bandwidth'' =
       (if callable h v then map_of self ''_bandwidth'' else Some v)
   \<and> map_of (set_bandwidth h self v) ''_covariance'' =
       (if callable h v then map_of self ''_covariance'' else Some PNone)
   \<and> map_of (set_covariance h self v) ''_bw_fct'' = Some PNone
   \<and> map_of (set_covariance h self v) ''_cov_fct'' = Some (if callable h v then v else PNone)
   \<and> map_of (set_covariance h self v) ''_covariance'' =
       (if callable h v then map_of self ''_covariance'' else Some v)
   \<and> map_of (set_covariance h self v) ''_bandwidth'' =
       (if callable h v then map_of self ''_bandwidth'' else Some PNone)"
  by (simp add: set_bandwidth_def set_covariance_def update_conv' Let_def)

theorem bandwidth_covariance_setters_witness:
  "callable example_heap (PRef 0) \<and> \<not> callable example_heap (PInt 5)
   \<and> map_of (set_covariance example_heap example_model (PInt 5)) ''_covariance'' = Some (PInt 5)
   \<and> map_of (set_bandwidth example_heap
        (set_covariance example_heap example_model (PInt 5)) (PRef 0)) ''_covariance''
       = Some (PInt 5)
   \<and> map_of (set_bandwidth example_heap
        (set_covariance example_heap example_model (PInt 5)) (PInt 2)) ''_covariance''
       = Some PNone"
  using bandwidth_covariance_setters [of example_heap example_model "PInt 5"]
    bandwidth_covariance_setters
      [of example_heap "set_covariance example_heap example_model (PInt 5)" "PRef 0"]
    bandwidth_covariance_setters
      [of example_heap "set_covariance example_heap example_model (PInt 5)" "PInt 2"]
  by (simp add: example_heap_def lookup_def)

text \<open>
  C2, the statement of the specification fails: after \<^verbatim>\<open>covariance = 5\<close>, assigning a callable to
  \<^verbatim>\<open>bandwidth\<close> leaves the covariance value 5 in place, and after \<^verbatim>\<open>bandwidth = 2\<close>,
  assigning a callable to \<^verbatim>\<open>covariance\<close> leaves the bandwidth value 2 in place.
\<close>

theorem callable_bandwidth_keeps_covariance:
  "callable example_heap (PRef 0)
   \<and> map_of (set_covariance example_heap example_model (PInt 5)) ''_covariance'' = Some (PInt 5)
   \<and> map_of (set_bandwidth example_heap
        (set_covariance example_heap example_model (PInt 5)) (PRef 0)) ''_covariance''
       = Some (PInt 5)
   \<and> map_of (set_covariance example_heap
        (set_bandwidth example_heap example_model (PInt 2)) (PRef 0)) ''_bandwidth''
       = Some (PInt 2)"
  by (simp add: set_bandwidth_def set_covariance_def update_conv' Let_def example_heap_def
      lookup_def)

text \<open>
  C8 (as amended). Assigning to \<^verbatim>\<open>lower\<close> or \<^verbatim>\<open>upper\<close> fails with \<^verbatim>\<open>AssertionError\<close> for a
  value of rank 2 or more, stores a vector of rank 1 as it is, and stores a scalar (a
  number or an array of rank 0) as a new vector with one element. Deleting the bound
  sets it back to \<^verbatim>\<open>None\<close>, the state in which the constructor leaves it.
\<close>

theorem bound_setters_by_rank:
  "(2 \<le> length (value_shape h l) \<longrightarrow>
      set_lower h self l = Inl (AssertionError ''The lower bound must be at most a 1D array'')
      \<and> set_upper h self l = Inl (AssertionError ''The upper bound must be at most a 1D array''))
   \<and> (length (value_shape h l) = 1 \<longrightarrow>
        set_lower h self l = Inr (AList.update ''_lower'' l self, h)
        \<and> set_upper h self l = Inr (AList.update ''_upper'' l self, h))
   \<and> (value_shape h l = [] \<longrightarrow>
        (\<exists>b h'. set_lower h self l = Inr (AList.update ''_lower'' b self, h')
                \<and> shape_of h' b = Inr [1])
        \<and> (\<exists>b h'. set_upper h self l = Inr (AList.update ''_upper'' b self, h')
                \<and> shape_of h' b = Inr [1]))
   \<and> get_lower (del_lower self) = Inr PNone
   \<and> get_upper (del_upper self) = Inr PNone"
proof -
  have A: "set_lower h self l = Inl (AssertionError ''The lower bound must be at most a 1D array'')
      \<and> set_upper h self l = Inl (AssertionError ''The upper bound must be at most a 1D array'')"
    if "2 \<le> length (value_shape h l)"
    using that
    by (cases "as_ndarray h l") (auto simp: set_lower_cases set_upper_cases value_shape_def)
  have B: "set_lower h self l = Inr (AList.update ''_lower'' l self, h)
        \<and> set_upper h self l = Inr (AList.update ''_upper'' l self, h)"
    if "length (value_shape h l) = 1"
    using that
    by (cases "as_ndarray h l") (auto simp: set_lower_cases set_upper_cases value_shape_def)
  have C: "(\<exists>b h'. set_lower h self l = Inr (AList.update ''_lower'' b self, h')
                \<and> shape_of h' b = Inr [1])
        \<and> (\<exists>b h'. set_upper h self l = Inr (AList.update ''_upper'' b self, h')
                \<and> shape_of h' b = Inr [1])"
    if "value_shape h l = []"
  proof (cases "as_ndarray h l")
    case None
    then have "set_lower h self l =
        Inr (AList.update ''_lower'' (PRef (Suc (length h))) self,
             h @ [Ndarray [] [l], Ndarray [1] [l]])"
      and "set_upper h self l =
        Inr (AList.update ''_upper'' (PRef (Suc (length h))) self,
             h @ [Ndarray [] [l], Ndarray [1] [l]])"
      by (simp_all add: set_lower_cases set_upper_cases)
    moreover have "shape_of (h @ [Ndarray [] [l], Ndarray [1] [l]]) (PRef (Suc (length h)))
        = Inr [1]"
      by (simp add: shape_of_def lookup_def nth_append)
    ultimately show ?thesis by blast
  next
    case (Some p)
    with that obtain d where "as_ndarray h l = Some ([], d)"
      by (cases p) (simp add: value_shape_def)
    then have "set_lower h self l =
        Inr (AList.update ''_lower'' (PRef (length h)) self, h @ [Ndarray [1] d])"
      and "set_upper h self l =
        Inr (AList.update ''_upper'' (PRef (length h)) self, h @ [Ndarray [1] d])"
      by (simp_all add: set_lower_cases set_upper_cases)
    moreover have "shape_of (h @ [Ndarray [1] d]) (PRef (length h)) = Inr [1]"
      by (simp add: shape_of_def lookup_def)
    ultimately show ?thesis by blast
  qed
  have E: "get_lower (del_lower self) = Inr PNone \<and> get_upper (del_upper self) = Inr PNone"
    by (simp add: get_lower_def get_upper_def del_lower_def del_upper_def attr_def update_conv')
  from A B C E show ?thesis by blast
qed

theorem bound_setters_by_rank_witness:
  "(2 \<le> length (value_shape example_heap (PRef 2))
    \<and> set_lower example_heap example_model (PRef 2)
        = Inl (AssertionError ''The lower bound must be at most a 1D array''))
   \<and> (length (value_shape example_heap (PRef 3)) = 1
    \<and> set_upper example_heap example_model (PRef 3)
        = Inr (AList.update ''_upper'' (PRef 3) example_model, example_heap))
   \<and> (value_shape example_heap (PInt 0) = []
    \<and> (\<exists>b h'. set_lower example_heap example_model (PInt 0)
                 = Inr (AList.update ''_lower'' b example_model, h')
               \<and> shape_of h' b = Inr [1]))"
  using bound_setters_by_rank [of example_heap "PRef 2" example_model]
    bound_setters_by_rank [of example_heap "PRef 3" example_model]
    bound_setters_by_rank [of example_heap "PInt 0" example_model]
  by (simp add: value_shape_def example_heap_def lookup_def)

text \<open>
  C8, the statement of the specification fails: the scalar \<^verbatim>\<open>0.0\<close> is accepted as a lower bound and
  stored as a vector with one element.
\<close>

theorem scalar_bound_is_accepted:
  "set_lower example_heap example_model (PFloat (Finite 0))
     = Inr (AList.update ''_lower'' (PRef 10) example_model,
            example_heap @ [Ndarray [] [PFloat (Finite 0)], Ndarray [1] [PFloat (Finite 0)]])
   \<and> shape_of (example_heap @ [Ndarray [] [PFloat (Finite 0)], Ndarray [1] [PFloat (Finite 0)]])
        (PRef 10) = Inr [1]"
proof -
  have "length example_heap = 9"
    by (simp add: example_heap_def)
  then show ?thesis
    by (simp add: set_lower_cases shape_of_def lookup_def nth_append)
qed

subsection \<open>Construction\<close>












subsection \<open>Copying\<close>

lemma is_private_iff:
  "is_private m \<longleftrightarrow> starts_with_single_underscore m \<and> m \<noteq> ''_''"
  by (cases m; cases "tl m") (auto simp: is_private_def starts_with_single_underscore_def)

lemma descriptors_not_private:
  "\<forall>n \<in> set [''kernel'', ''kernel_class'', ''bandwidth'', ''covariance'', ''lower'', ''upper'',
                ''xdata'', ''ydata'', ''method'', ''N'', ''dim'', ''__class__'', ''__dict__'',
                ''__weakref__'']. \<not> is_private n"
  by (simp add: is_private_def)

lemma setattr_private:
  assumes "is_private m"
  shows "setattr h res m v = Inr (AList.update m v res, h)"
proof -
  from assms descriptors_not_private
  have "m \<notin> set [''kernel'', ''kernel_class'', ''bandwidth'', ''covariance'', ''lower'', ''upper'',
                ''xdata'', ''ydata'', ''method'', ''N'', ''dim'', ''__class__'', ''__dict__'',
                ''__weakref__'']"
    by blast
  then show ?thesis
    by (simp add: setattr_def)
qed

lemma obj_copy_has:
  "has_copy h obj \<Longrightarrow>
   \<exists>a ob. obj = PRef a \<and> lookup h a = Some ob \<and> obj_copy h obj = Inr (PRef (length h), h @ [ob])"
  by (auto simp: has_copy_def obj_copy_def alloc_def split: pyval.splits option.splits pyobj.splits)

lemma obj_copy_hasnt: "\<not> has_copy h obj \<Longrightarrow> obj_copy h obj = Inl AttributeError"
  by (auto simp: has_copy_def obj_copy_def alloc_def split: pyval.splits option.splits pyobj.splits)

lemma has_copy_append: "valid h v \<Longrightarrow> has_copy (h @ ext) v = has_copy h v"
  by (cases v) (simp_all add: valid_def has_copy_def lookup_append)

lemma copy_members_clone:
  "is_private m \<Longrightarrow> map_of self m = Some obj \<Longrightarrow>
   obj_copy h obj = Inr (c, h') \<Longrightarrow>
   copy_members h self (m # ms) res = copy_members h' self ms (AList.update m c res)"
  by (simp add: attr_def and_then_def setattr_private)

lemma copy_members_share:
  "is_private m \<Longrightarrow> map_of self m = Some obj \<Longrightarrow>
   obj_copy h obj = Inl AttributeError \<Longrightarrow>
   copy_members h self (m # ms) res = copy_members h self ms (AList.update m obj res)"
  by (simp add: attr_def and_then_def setattr_private)

lemma is_clone_of_new:
  "lookup h a = Some ob \<Longrightarrow> is_clone_of h (h @ ob # ext) (PRef a) (PRef (length h))"
  by (simp add: is_clone_of_def lookup_new)

lemma is_clone_of_earlier:
  "valid h obj \<Longrightarrow> is_clone_of (h @ e1) (h @ e1 @ e2) obj c \<Longrightarrow> is_clone_of h (h @ e1 @ e2) obj c"
  by (cases obj; cases c) (auto simp: is_clone_of_def valid_def lookup_append)

lemma copy_members_spec:
  assumes "distinct ms"
    and "\<forall>m \<in> set ms. map_of self m \<noteq> None"
    and "\<forall>m v. map_of self m = Some v \<longrightarrow> valid h v"
  shows "\<exists>res' ext. copy_members h self ms res = Inr (res', h @ ext)
     \<and> (\<forall>m. m \<notin> set ms \<or> \<not> is_private m \<longrightarrow> map_of res' m = map_of res m)
     \<and> (\<forall>m obj. m \<in> set ms \<and> is_private m \<and> map_of self m = Some obj \<longrightarrow>
           (\<exists>c. map_of res' m = Some c
               \<and> (if has_copy h obj then is_clone_of h (h @ ext) obj c else c = obj)))"
  using assms
proof (induction ms arbitrary: h res)
  case Nil
  have "copy_members h self [] res = Inr (res, h @ [])" by simp
  then show ?case by (intro exI [of _ res] exI [of _ "[]"]) simp
next
  case (Cons m ms)
  from Cons.prems have dist: "distinct ms" and notin: "m \<notin> set ms"
    and dom: "\<forall>m' \<in> set ms. map_of self m' \<noteq> None"
    and val: "\<forall>m v. map_of self m = Some v \<longrightarrow> valid h v"
    by simp_all
  from Cons.prems obtain obj where obj: "map_of self m = Some obj" by auto
  with val have vobj: "valid h obj" by blast
  show ?case
  proof (cases "is_private m")
    case False
    from Cons.IH [OF dist dom val, of res] obtain res' ext where
      r: "copy_members h self ms res = Inr (res', h @ ext)"
      and keep: "\<forall>m. m \<notin> set ms \<or> \<not> is_private m \<longrightarrow> map_of res' m = map_of res m"
      and cp: "\<forall>m obj. m \<in> set ms \<and> is_private m \<and> map_of self m = Some obj \<longrightarrow>
           (\<exists>c. map_of res' m = Some c
               \<and> (if has_copy h obj then is_clone_of h (h @ ext) obj c else c = obj))"
      by blast
    have "copy_members h self (m # ms) res = Inr (res', h @ ext)"
      using False r by simp
    moreover have "\<forall>m'. m' \<notin> set (m # ms) \<or> \<not> is_private m' \<longrightarrow> map_of res' m' = map_of res m'"
      using keep by auto
    moreover have "\<forall>m' obj. m' \<in> set (m # ms) \<and> is_private m' \<and> map_of self m' = Some obj \<longrightarrow>
           (\<exists>c. map_of res' m' = Some c
               \<and> (if has_copy h obj then is_clone_of h (h @ ext) obj c else c = obj))"
    proof (intro allI impI)
      fix m' obj'
      assume as: "m' \<in> set (m # ms) \<and> is_private m' \<and> map_of self m' = Some obj'"
      with False have "m' \<in> set ms" by auto
      with cp as show "\<exists>c. map_of res' m' = Some c
               \<and> (if has_copy h obj' then is_clone_of h (h @ ext) obj' c else c = obj')"
        by blast
    qed
    ultimately show ?thesis by blast
  next
    case True
    show ?thesis
    proof (cases "has_copy h obj")
      case False
      define res1 where "res1 = AList.update m obj res"
      have step: "copy_members h self (m # ms) res = copy_members h self ms res1"
        unfolding res1_def using True obj obj_copy_hasnt [OF False] by (rule copy_members_share)
      from Cons.IH [OF dist dom val, of res1] obtain res' ext where
        r: "copy_members h self ms res1 = Inr (res', h @ ext)"
        and keep: "\<forall>m. m \<notin> set ms \<or> \<not> is_private m \<longrightarrow> map_of res' m = map_of res1 m"
        and cp: "\<forall>m obj. m \<in> set ms \<and> is_private m \<and> map_of self m = Some obj \<longrightarrow>
           (\<exists>c. map_of res' m = Some c
               \<and> (if has_copy h obj then is_clone_of h (h @ ext) obj c else c = obj))"
        by blast
      have m1: "map_of res1 = (map_of res)(m \<mapsto> obj)"
        by (simp add: res1_def update_conv')
      have "copy_members h self (m # ms) res = Inr (res', h @ ext)"
        using step r by simp
      moreover have "\<forall>m'. m' \<notin> set (m # ms) \<or> \<not> is_private m' \<longrightarrow> map_of res' m' = map_of res m'"
        using keep True by (auto simp: m1)
      moreover have "\<forall>m' obj'. m' \<in> set (m # ms) \<and> is_private m' \<and> map_of self m' = Some obj' \<longrightarrow>
           (\<exists>c. map_of res' m' = Some c
               \<and> (if has_copy h obj' then is_clone_of h (h @ ext) obj' c else c = obj'))"
      proof (intro allI impI)
        fix m' obj'
        assume a: "m' \<in> set (m # ms) \<and> is_private m' \<and> map_of self m' = Some obj'"
        show "\<exists>c. map_of res' m' = Some c
               \<and> (if has_copy h obj' then is_clone_of h (h @ ext) obj' c else c = obj')"
        proof (cases "m' = m")
          case True
          with a obj have "obj' = obj" by simp
          moreover from True notin keep have "map_of res' m' = Some obj" by (simp add: m1)
          ultimately show ?thesis using False by simp
        next
          case False
          with a cp show ?thesis by simp
        qed
      qed
      ultimately show ?thesis by blast
    next
      case has: True
      from obj_copy_has [OF has] obtain a ob where
        a: "obj = PRef a" and la: "lookup h a = Some ob"
        and oc: "obj_copy h obj = Inr (PRef (length h), h @ [ob])"
        by blast
      define res1 where "res1 = AList.update m (PRef (length h)) res"
      have step: "copy_members h self (m # ms) res = copy_members (h @ [ob]) self ms res1"
        unfolding res1_def using True obj oc by (rule copy_members_clone)
      have val1: "\<forall>m v. map_of self m = Some v \<longrightarrow> valid (h @ [ob]) v"
        using val valid_append by blast
      from Cons.IH [OF dist dom val1, of res1] obtain res' ext where
        r: "copy_members (h @ [ob]) self ms res1 = Inr (res', (h @ [ob]) @ ext)"
        and keep: "\<forall>m. m \<notin> set ms \<or> \<not> is_private m \<longrightarrow> map_of res' m = map_of res1 m"
        and cp: "\<forall>m obj. m \<in> set ms \<and> is_private m \<and> map_of self m = Some obj \<longrightarrow>
           (\<exists>c. map_of res' m = Some c
               \<and> (if has_copy (h @ [ob]) obj then is_clone_of (h @ [ob]) ((h @ [ob]) @ ext) obj c
                   else c = obj))"
        by blast
      have m1: "map_of res1 = (map_of res)(m \<mapsto> PRef (length h))"
        by (simp add: res1_def update_conv')
      have "copy_members h self (m # ms) res = Inr (res', h @ (ob # ext))"
        using step r by simp
      moreover have "\<forall>m'. m' \<notin> set (m # ms) \<or> \<not> is_private m' \<longrightarrow> map_of res' m' = map_of res m'"
        using keep True by (auto simp: m1)
      moreover have "\<forall>m' obj'. m' \<in> set (m # ms) \<and> is_private m' \<and> map_of self m' = Some obj' \<longrightarrow>
           (\<exists>c. map_of res' m' = Some c
               \<and> (if has_copy h obj' then is_clone_of h (h @ (ob # ext)) obj' c else c = obj'))"
      proof (intro allI impI)
        fix m' obj'
        assume as: "m' \<in> set (m # ms) \<and> is_private m' \<and> map_of self m' = Some obj'"
        show "\<exists>c. map_of res' m' = Some c
               \<and> (if has_copy h obj' then is_clone_of h (h @ (ob # ext)) obj' c else c = obj')"
        proof (cases "m' = m")
          case True
          with as obj have "obj' = obj" by simp
          moreover from True notin keep have "map_of res' m' = Some (PRef (length h))"
            by (simp add: m1)
          moreover have "is_clone_of h (h @ ob # ext) (PRef a) (PRef (length h))"
            using la by (rule is_clone_of_new)
          ultimately show ?thesis using has a by simp
        next
          case False
          with as have in_ms: "m' \<in> set ms" by simp
          from as val have v': "valid h obj'" by blast
          from cp in_ms as obtain c where
            c: "map_of res' m' = Some c"
            and cc: "if has_copy (h @ [ob]) obj' then is_clone_of (h @ [ob]) ((h @ [ob]) @ ext) obj' c
                   else c = obj'"
            by blast
          have hc: "has_copy (h @ [ob]) obj' = has_copy h obj'"
            using v' by (rule has_copy_append)
          show ?thesis
          proof (cases "has_copy h obj'")
            case True
            with cc hc have "is_clone_of (h @ [ob]) (h @ [ob] @ ext) obj' c" by simp
            with v' have "is_clone_of h (h @ [ob] @ ext) obj' c" by (rule is_clone_of_earlier)
            with c True show ?thesis by simp
          next
            case False
            with cc hc c show ?thesis by simp
          qed
        qed
      qed
      ultimately show ?thesis by blast
    qed
  qed
qed


text \<open>
  C10 (as amended). On an instance whose attribute values are objects of the store,
  \<^verbatim>\<open>copy()\<close> succeeds and leaves the objects of the original as they are. The copy has
  exactly the attributes of the original whose names have at least two characters, begin
  with an underscore and have a second character that is not an underscore; each of them
  is a new object with the contents of the original's when that one has a \<^verbatim>\<open>copy()\<close>
  method, and the original's object itself otherwise. Every other attribute of the
  original is absent from the copy: one with a public name, one whose name begins with
  two underscores, and the attribute named by the single character \<^verbatim>\<open>_\<close>, which is the
  one name that starts with a single underscore and is not copied.
\<close>

theorem copy_private_attributes:
  "(distinct (map fst self) \<and> list_all (valid h) (map snd self) \<longrightarrow>
     (\<exists>res ext. copy h self = Inr (res, h @ ext)
        \<and> (\<forall>m. map_of res m \<noteq> None \<longleftrightarrow> is_private m \<and> map_of self m \<noteq> None)
        \<and> (\<forall>m obj. is_private m \<and> map_of self m = Some obj \<longrightarrow>
              (\<exists>c. map_of res m = Some c
                  \<and> (if has_copy h obj then is_clone_of h (h @ ext) obj c else c = obj)))))
   \<and> (is_private n \<longleftrightarrow> starts_with_single_underscore n \<and> n \<noteq> ''_'')"
proof -
  have A: "\<exists>res ext. copy h self = Inr (res, h @ ext)
        \<and> (\<forall>m. map_of res m \<noteq> None \<longleftrightarrow> is_private m \<and> map_of self m \<noteq> None)
        \<and> (\<forall>m obj. is_private m \<and> map_of self m = Some obj \<longrightarrow>
              (\<exists>c. map_of res m = Some c
                  \<and> (if has_copy h obj then is_clone_of h (h @ ext) obj c else c = obj)))"
    if d: "distinct (map fst self)" and v: "list_all (valid h) (map snd self)"
  proof -
    have dom: "\<forall>m \<in> set (map fst self). map_of self m \<noteq> None"
      by (simp add: map_of_eq_None_iff)
    have val: "\<forall>m v. map_of self m = Some v \<longrightarrow> valid h v"
      using v by (auto simp: list_all_iff dest!: map_of_SomeD)
    from copy_members_spec [OF d dom val, of "[]"] obtain res ext where
      r: "copy_members h self (map fst self) [] = Inr (res, h @ ext)"
      and keep: "\<forall>m. m \<notin> set (map fst self) \<or> \<not> is_private m \<longrightarrow> map_of res m = map_of [] m"
      and cp: "\<forall>m obj. m \<in> set (map fst self) \<and> is_private m \<and> map_of self m = Some obj \<longrightarrow>
           (\<exists>c. map_of res m = Some c
               \<and> (if has_copy h obj then is_clone_of h (h @ ext) obj c else c = obj))"
      by blast
    have in_dom: "m \<in> set (map fst self)" if "map_of self m = Some obj" for m obj
      using that by (auto dest!: map_of_SomeD intro: rev_image_eqI)
    have cp': "\<forall>m obj. is_private m \<and> map_of self m = Some obj \<longrightarrow>
           (\<exists>c. map_of res m = Some c
               \<and> (if has_copy h obj then is_clone_of h (h @ ext) obj c else c = obj))"
      using cp in_dom by blast
    have "map_of res m \<noteq> None \<longleftrightarrow> is_private m \<and> map_of self m \<noteq> None" for m
    proof
      assume "map_of res m \<noteq> None"
      with keep have "m \<in> set (map fst self) \<and> is_private m" by auto
      then show "is_private m \<and> map_of self m \<noteq> None"
        using dom by blast
    next
      assume "is_private m \<and> map_of self m \<noteq> None"
      with cp' show "map_of res m \<noteq> None" by fastforce
    qed
    with r cp' show ?thesis
      unfolding copy_def by blast
  qed
  from A is_private_iff show ?thesis by blast
qed

theorem copy_private_attributes_witness:
  "(distinct (map fst copied_example) \<and> list_all (valid example_heap) (map snd copied_example))
   \<and> (\<exists>res ext. copy example_heap copied_example = Inr (res, example_heap @ ext)
        \<and> (\<forall>m. map_of res m \<noteq> None \<longleftrightarrow> is_private m \<and> map_of copied_example m \<noteq> None)
        \<and> (\<forall>m obj. is_private m \<and> map_of copied_example m = Some obj \<longrightarrow>
              (\<exists>c. map_of res m = Some c
                  \<and> (if has_copy example_heap obj
                      then is_clone_of example_heap (example_heap @ ext) obj c else c = obj))))
   \<and> is_private ''_xdata'' \<and> has_copy example_heap (PRef 2)
   \<and> is_private ''_kernel'' \<and> \<not> has_copy example_heap (PRef 0)"
  using copy_private_attributes [of copied_example example_heap "''_xdata''"]
  by (simp add: copied_example_def valid_def example_heap_def is_private_def has_copy_def
      lookup_def)

text \<open>
  C10, the statement of the specification fails: the attribute \<^verbatim>\<open>_\<close>, which a keyword \<^verbatim>\<open>_=1\<close> creates at
  construction, has a name that starts with a single underscore, and the copy does not
  have it. Of the five attributes of the example the copy keeps \<^verbatim>\<open>_xdata\<close>, cloned, and
  \<^verbatim>\<open>_kernel\<close>, shared.
\<close>

theorem lone_underscore_is_not_copied:
  "starts_with_single_underscore ''_''
   \<and> map_of copied_example ''_'' = Some (PInt 1)
   \<and> copy example_heap copied_example
       = Inr ([(''_xdata'', PRef 9), (''_kernel'', PRef 0)],
              example_heap @ [Ndarray [1, 3] [PInt 1, PInt 2, PInt 3]])"
  by (simp add: starts_with_single_underscore_def copied_example_def copy_def is_private_def
      attr_def and_then_def obj_copy_def alloc_def setattr_def lookup_def example_heap_def)

subsection \<open>Fitting\<close>

lemma names_not_bound:
  "''D'' \<notin> set module_globals \<and> ''N'' \<notin> set module_globals \<and> ''y'' \<notin> set module_globals"
  by (simp add: module_globals_def)

lemma fit_in_module: "fit unpatched E h self = Inl (NameError ''D'')"
  by (simp add: fit_def load_global_def unpatched_def and_then_def)

lemma inf_ones_count:
  "inf_ones f (PInt (int n)) h = Inr (PRef (length h), h @ [Ndarray [n] (replicate n (PFloat f))])"
  by (simp add: inf_ones_def and_then_def alloc_def)

text \<open>
  C1, a defect of the code. The model is built from three points in dimension 1, so
  \<open>D = 1\<close> and \<open>N = 3\<close>, and sets no bound. In the module as written \<^verbatim>\<open>fit()\<close> stops at
  line 221 with \<^verbatim>\<open>NameError\<close> for \<^verbatim>\<open>D\<close> and sets no default bound at all. With the two names
  bound to the shape of \<^verbatim>\<open>xdata\<close>, as the line was meant to do, the default bounds get
  \<open>N = 3\<close> entries, where the specification asks for \<open>D = 1\<close>.
\<close>

theorem fit_raises_name_error:
  "init example_externals example_heap (PRef 2) (PRef 3) [] = Inr (example_model, example_heap)
   \<and> attr_shape ''_xdata'' (Inr (example_model, example_heap)) = Inr [1, 3]
   \<and> fit unpatched example_externals example_heap example_model = Inl (NameError ''D'')
   \<and> attr_shape ''_lower''
        (fit [''D'' \<mapsto> PInt 1, ''N'' \<mapsto> PInt 3] example_externals example_heap example_model)
       = Inr [3]
   \<and> attr_shape ''_upper''
        (fit [''D'' \<mapsto> PInt 1, ''N'' \<mapsto> PInt 3] example_externals example_heap example_model)
       = Inr [3]"
  by (simp add: run_defs example_defs)

text \<open>
  The check of the sample counts at line 222 is an assertion. Once the names \<^verbatim>\<open>D\<close> and \<^verbatim>\<open>N\<close>
  are bound to the shape of \<^verbatim>\<open>xdata\<close> it raises \<^verbatim>\<open>AssertionError\<close> for a \<^verbatim>\<open>ydata\<close> of another
  length; whatever the binding of \<^verbatim>\<open>D\<close>, \<^verbatim>\<open>fit()\<close> raises no \<^verbatim>\<open>DimensionMismatch\<close>.
\<close>

lemma sample_count_assertion:
  "(\<exists>self0 h0. init E h x y [] = Inr (self0, h0))
   \<and> (attr_shape ''_xdata'' (Inr (self, h1)) = Inr [D, N]
        \<and> attr_shape ''_ydata'' (Inr (self, h1)) = Inr [L] \<and> L \<noteq> N \<longrightarrow>
      (G ''D'' \<noteq> None \<and> G ''N'' = Some (PInt (int N)) \<longrightarrow>
         fit G E h1 self = Inl (AssertionError ''There must be as many points for X and Y''))
      \<and> (G ''N'' = None \<or> G ''N'' = Some (PInt (int N)) \<longrightarrow>
           (\<exists>e. fit G E h1 self = Inl e \<and> e \<noteq> DimensionMismatch)))"
proof -
  have A: "\<exists>self0 h0. init E h x y [] = Inr (self0, h0)"
    by (simp add: init_no_keywords split: prod.splits)
  have B: "fit G E h1 self = Inl (AssertionError ''There must be as many points for X and Y'')"
    if x: "attr_shape ''_xdata'' (Inr (self, h1)) = Inr [D, N]"
      and y: "attr_shape ''_ydata'' (Inr (self, h1)) = Inr [L]" and "L \<noteq> N"
      and d: "G ''D'' \<noteq> None" and n: "G ''N'' = Some (PInt (int N))"
  proof -
    from x obtain xd where xd: "attr self ''_xdata'' = Inr xd" "shape_of h1 xd = Inr [D, N]"
      by (cases "attr self ''_xdata''") (auto simp: attr_shape_def and_then_def)
    from y obtain yd where yd: "attr self ''_ydata'' = Inr yd" "shape_of h1 yd = Inr [L]"
      by (cases "attr self ''_ydata''") (auto simp: attr_shape_def and_then_def)
    from d obtain dv where dv: "G ''D'' = Some dv" by blast
    show ?thesis
      using \<open>L \<noteq> N\<close> by (simp add: fit_def and_then_def load_global_def dv n xd yd)
  qed
  have C: "\<exists>e. fit G E h1 self = Inl e \<and> e \<noteq> DimensionMismatch"
    if "attr_shape ''_xdata'' (Inr (self, h1)) = Inr [D, N]"
      and "attr_shape ''_ydata'' (Inr (self, h1)) = Inr [L]" and "L \<noteq> N"
      and "G ''N'' = None \<or> G ''N'' = Some (PInt (int N))"
  proof (cases "G ''D''")
    case None
    then show ?thesis by (simp add: fit_def and_then_def load_global_def)
  next
    case (Some d)
    show ?thesis
    proof (cases "G ''N''")
      case None
      with Some show ?thesis by (simp add: fit_def and_then_def load_global_def)
    next
      case (Some n)
      with that \<open>G ''D'' = Some d\<close> B show ?thesis by auto
    qed
  qed
  from A B C show ?thesis by blast
qed

text \<open>
  C4, a defect of the code. With three points in \<^verbatim>\<open>xdata\<close> and two responses in \<^verbatim>\<open>ydata\<close>,
  construction succeeds, as the specification says. \<^verbatim>\<open>fit()\<close> then stops at line 221 with
  \<^verbatim>\<open>NameError\<close> for \<^verbatim>\<open>D\<close>, as it does for every model, and the check of the sample counts
  at line 222 is never reached: the mismatch is not detected, and the error is not
  \<^verbatim>\<open>DimensionMismatch\<close>. With the two names bound to the shape of \<^verbatim>\<open>xdata\<close>, as line 221 was
  meant to do, the check is reached and fails.
\<close>

theorem mismatch_raises_name_error:
  "init example_externals example_heap (PRef 2) (PRef 4) [] = Inr (mismatched_model, example_heap)
   \<and> attr_shape ''_xdata'' (Inr (mismatched_model, example_heap)) = Inr [1, 3]
   \<and> attr_shape ''_ydata'' (Inr (mismatched_model, example_heap)) = Inr [2]
   \<and> fit unpatched example_externals example_heap mismatched_model = Inl (NameError ''D'')
   \<and> fit unpatched example_externals example_heap mismatched_model \<noteq> Inl DimensionMismatch
   \<and> fit [''D'' \<mapsto> PInt 1, ''N'' \<mapsto> PInt 3] example_externals example_heap mismatched_model
       = Inl (AssertionError ''There must be as many points for X and Y'')"
  by (simp add: run_defs example_defs mismatched_model_def)

subsection \<open>Evaluation\<close>

lemma evaluate_in_module:
  "length (value_shape h points) < 3 \<Longrightarrow>
   evaluate unpatched E h self points PNone = Inl (NameError ''y'')"
  by (auto simp: evaluate_def asanyarray_def value_shape_def empty_like_y_def load_global_def
      unpatched_def and_then_def alloc_def Let_def split: option.splits prod.splits)

text \<open>
  C3, a defect of the code. Called without an output buffer, \<^verbatim>\<open>evaluate\<close> stops at line
  241 with \<^verbatim>\<open>NameError\<close> for \<^verbatim>\<open>y\<close>, for a scalar, for a vector of three points and for a
  matrix of three points alike, and returns no result of any shape. With a buffer
  supplied the same three calls return it with the shape the specification states: \<open>()\<close>, \<open>(3,)\<close>
  and \<open>(3,)\<close>.
\<close>

theorem evaluate_without_out_raises_name_error:
  "evaluate unpatched example_externals example_heap example_model (PFloat (Finite 3)) PNone
     = Inl (NameError ''y'')
   \<and> evaluate unpatched example_externals example_heap example_model (PRef 3) PNone
     = Inl (NameError ''y'')
   \<and> evaluate unpatched example_externals example_heap example_model (PRef 2) PNone
     = Inl (NameError ''y'')
   \<and> result_shape (evaluate unpatched example_externals example_heap example_model
        (PFloat (Finite 3)) (PRef 6)) = Inr []
   \<and> result_shape (evaluate unpatched example_externals example_heap example_model
        (PRef 3) (PRef 8)) = Inr [3]
   \<and> result_shape (evaluate unpatched example_externals example_heap example_model
        (PRef 2) (PRef 8)) = Inr [3]"
  by (simp add: run_defs example_defs)

text \<open>
  C5, a defect of the code. For two query points and no output buffer, \<^verbatim>\<open>evaluate\<close>
  allocates nothing: it raises \<^verbatim>\<open>NameError\<close> for \<^verbatim>\<open>y\<close> while it computes the element type
  of the buffer. A supplied buffer of shape \<open>(2, 1)\<close> is reshaped to length 2, and a
  supplied buffer of three items is refused with \<^verbatim>\<open>ValueError\<close>.
\<close>

theorem output_buffer_is_not_allocated:
  "value_shape example_heap (PRef 4) = [2]
   \<and> evaluate unpatched example_externals example_heap mismatched_model (PRef 4) PNone
     = Inl (NameError ''y'')
   \<and> result_shape (evaluate unpatched example_externals example_heap mismatched_model
        (PRef 4) (PRef 7)) = Inr [2]
   \<and> evaluate unpatched example_externals example_heap mismatched_model (PRef 4) (PRef 8)
     = Inl ValueError"
  by (simp add: value_shape_def run_defs example_defs mismatched_model_def)

end
